theory Spec2Isabelle
  imports Complex_Main "HOL-Library.Sublist"
begin

section \<open>JavaScript values\<close>

text \<open>
  The client passes request data through untyped and tests values with JavaScript
  truthiness (\<^verbatim>\<open>x || d\<close>, \<^verbatim>\<open>if (token)\<close>, \<^verbatim>\<open>status === 200 && data\<close>),
  so the model carries a small universe of JavaScript values. A \<^verbatim>\<open>number\<close> is a
  finite value, \<^verbatim>\<open>NaN\<close> or an infinity; only its truthiness and equality are used.
\<close>

datatype number = Num real | NaN | PosInfinity | NegInfinity

datatype jsval =
    Undefined
  | Null
  | JBool bool
  | JNum number
  | JStr string
  | JArr "jsval list"
  | JObj "(string \<times> jsval) list"

fun truthy_number :: "number \<Rightarrow> bool" where
  "truthy_number (Num r) = (r \<noteq> 0)"
| "truthy_number NaN = False"
| "truthy_number PosInfinity = True"
| "truthy_number NegInfinity = True"

fun truthy_string :: "string \<Rightarrow> bool" where
  "truthy_string [] = False"
| "truthy_string (c # cs) = True"

text \<open>ToBoolean: the falsy values are undefined, null, false, 0, NaN and the empty string.\<close>

fun truthy :: "jsval \<Rightarrow> bool" where
  "truthy Undefined = False"
| "truthy Null = False"
| "truthy (JBool b) = b"
| "truthy (JNum n) = truthy_number n"
| "truthy (JStr s) = truthy_string s"
| "truthy (JArr xs) = True"
| "truthy (JObj kvs) = True"

text \<open>
  A response body is empty when the transport delivers nothing for it: the empty string,
  \<^verbatim>\<open>null\<close> or \<^verbatim>\<open>undefined\<close>. A body such as \<^verbatim>\<open>false\<close> or \<^verbatim>\<open>0\<close> is
  not empty, although it is falsy.
\<close>

fun empty_body :: "jsval \<Rightarrow> bool" where
  "empty_body Undefined = True"
| "empty_body Null = True"
| "empty_body (JStr s) = (s = [])"
| "empty_body (JBool b) = False"
| "empty_body (JNum n) = False"
| "empty_body (JArr xs) = False"
| "empty_body (JObj kvs) = False"

text \<open>\<^verbatim>\<open>x || d\<close> on an optional string and on an optional number.\<close>

fun or_string :: "string option \<Rightarrow> string \<Rightarrow> string" where
  "or_string None d = d"
| "or_string (Some s) d = (if truthy_string s then s else d)"

fun or_number :: "number option \<Rightarrow> number \<Rightarrow> number" where
  "or_number None d = d"
| "or_number (Some n) d = (if truthy_number n then n else d)"

section \<open>consts.ts\<close>

datatype MethodType = GET | POST | PUT | PATCH | DELETE

text \<open>The string value of each member of the enum, as consts.ts assigns it.\<close>

fun MethodType_value :: "MethodType \<Rightarrow> string" where
  "MethodType_value GET = ''GET''"
| "MethodType_value POST = ''POST''"
| "MethodType_value PUT = ''PUT''"
| "MethodType_value PATCH = ''PARCH''"
| "MethodType_value DELETE = ''DELETE''"

definition BASE_URL :: string where
  "BASE_URL = ''http://localhost:8000''"

definition BASE_PROTOCOL :: string where
  "BASE_PROTOCOL = ''https''"

definition BASE_TIMEOUT :: number where
  "BASE_TIMEOUT = Num 15000"

definition TOKEN_KEY_NAME :: string where
  "TOKEN_KEY_NAME = ''edu_pilot_sid''"

section \<open>interfaces.ts\<close>

record IEndpoint =
  address :: "string option"
  entity :: string
  protocol :: "string option"
  timeout :: "number option"

text \<open>
  \<^verbatim>\<open>IRequestParams\<close> is an open string-keyed bag; the operations cast arbitrary
  caller data to it, so it is a \<^typ>\<open>jsval\<close> here. \<^verbatim>\<open>IFilter\<close>, \<^verbatim>\<open>INavigation\<close>
  and \<^verbatim>\<open>ISorting\<close> are passed through uninterpreted and are \<^typ>\<open>jsval\<close> as well.
  The field \<^verbatim>\<open>method\<close> of \<^verbatim>\<open>IRequestConfig\<close> is \<open>method_type\<close> here, since
  the source's name is a reserved word.
\<close>

record IRequestConfig =
  path :: "string option"
  method_type :: MethodType
  params :: "jsval option"

section \<open>The HTTP transport\<close>

text \<open>
  The transport is the axios library, which is not part of the repository. The model
  keeps what the client hands to it and reads from it. \<open>AxiosInstance\<close> holds the
  defaults given to \<^verbatim>\<open>axios.create\<close>; \<open>AxiosCall\<close> is the object literal passed to
  \<^verbatim>\<open>request\<close>, where an absent key is \<open>None\<close>; \<open>AxiosRequest\<close> is the outbound
  request after the defaults are merged in and the request hook has run. The headers
  are those the client itself sets. The network is a parameter: an adapter maps the
  outbound request to a failure of its own or to the response of the server.

  The client is created with no \<^verbatim>\<open>validateStatus\<close> of its own, so the transport
  settles each response with its default: a status from 200 to 299 resolves, any
  other status rejects with an error that carries the response. A response without a
  status (0) is let through unvalidated.
\<close>

record AxiosInstance =
  baseURL :: string
  default_timeout :: number
  default_headers :: "string \<rightharpoonup> string"

record AxiosCall =
  url :: string
  http_method :: string
  query_params :: "jsval option"
  body_data :: "jsval option"

record AxiosRequest =
  req_baseURL :: string
  req_url :: string
  req_method :: string
  req_timeout :: number
  req_headers :: "string \<rightharpoonup> string"
  req_params :: "jsval option"
  req_data :: "jsval option"

record AxiosResponse =
  status :: int
  data :: jsval

datatype AxiosError = NetworkError string | RequestFailed AxiosResponse

definition validateStatus :: "int \<Rightarrow> bool" where
  "validateStatus s = (200 \<le> s \<and> s < 300)"

definition settle :: "AxiosResponse \<Rightarrow> AxiosError + AxiosResponse" where
  "settle response =
     (if status response = 0 \<or> validateStatus (status response)
      then Inr response
      else Inl (RequestFailed response))"

type_synonym adapter = "AxiosRequest \<Rightarrow> AxiosError + AxiosResponse"

text \<open>\<^verbatim>\<open>localStorage\<close>: \<^verbatim>\<open>getItem\<close> gives \<^verbatim>\<open>null\<close> for a key that is not stored.\<close>

type_synonym Storage = "string \<rightharpoonup> string"

definition mergeConfig :: "AxiosInstance \<Rightarrow> AxiosCall \<Rightarrow> AxiosRequest" where
  "mergeConfig inst c =
     \<lparr>req_baseURL = baseURL inst,
      req_url = url c,
      req_method = http_method c,
      req_timeout = default_timeout inst,
      req_headers = default_headers inst,
      req_params = query_params c,
      req_data = body_data c\<rparr>"

section \<open>api.service.ts\<close>

record ApiService =
  client :: AxiosInstance

text \<open>
  The template literal in \<^verbatim>\<open>_getAddress\<close> interpolates the descriptor object
  itself. An endpoint descriptor is a plain object, whose string conversion is that of
  \<^verbatim>\<open>Object.prototype.toString\<close>.
\<close>

definition toString_object :: "IEndpoint \<Rightarrow> string" where
  "toString_object endpoint = ''[object Object]''"

definition getAddress :: "IEndpoint \<Rightarrow> string" where
  "getAddress endpoint =
     (let url = or_string (address endpoint) BASE_URL;
          protocol = or_string (protocol endpoint) BASE_PROTOCOL
      in protocol @ ''://'' @ url @ ''/'' @ toString_object endpoint @ ''/'')"

text \<open>
  The request hook registered by \<^verbatim>\<open>_setupInterceptors\<close>: it reads the token from
  storage at the time of the request.
\<close>

definition setupInterceptors :: "Storage \<Rightarrow> AxiosRequest \<Rightarrow> AxiosRequest" where
  "setupInterceptors localStorage config =
     (case localStorage TOKEN_KEY_NAME of
        None \<Rightarrow> config
      | Some token \<Rightarrow>
          if truthy_string token
          then config\<lparr>req_headers := (req_headers config)(''Authorization'' \<mapsto> ''Bearer '' @ token)\<rparr>
          else config)"

definition constructor :: "IEndpoint \<Rightarrow> ApiService" where
  "constructor endpoint =
     \<lparr>client =
        \<lparr>baseURL = getAddress endpoint,
         default_timeout = or_number (timeout endpoint) BASE_TIMEOUT,
         default_headers = [''Content-Type'' \<mapsto> ''application/json'']\<rparr>\<rparr>"

text \<open>
  \<^verbatim>\<open>this._client.request\<close>: merge the defaults, run the request hook, hand the
  request to the network and settle its response. The outbound request is returned
  with the outcome, so that what was sent can be stated.
\<close>

definition client_request ::
  "AxiosInstance \<Rightarrow> Storage \<Rightarrow> adapter \<Rightarrow> AxiosCall \<Rightarrow> AxiosRequest \<times> (AxiosError + AxiosResponse)" where
  "client_request inst localStorage net c =
     (let config = setupInterceptors localStorage (mergeConfig inst c)
      in (config, case net config of Inl err \<Rightarrow> Inl err | Inr response \<Rightarrow> settle response))"

text \<open>
  \<^verbatim>\<open>_sendRequest\<close>. The result is the outbound request paired with what the promise
  settles to: \<open>Inl\<close> a rejection of the transport, which \<^verbatim>\<open>_sendRequest\<close> does not
  catch, \<open>Inr\<close> the resolved value.
\<close>

definition sendRequest ::
  "ApiService \<Rightarrow> Storage \<Rightarrow> adapter \<Rightarrow> IRequestConfig \<Rightarrow> AxiosRequest \<times> (AxiosError + jsval)" where
  "sendRequest this localStorage net config =
     (case client_request (client this) localStorage net
             \<lparr>url = or_string (path config) [],
              http_method = MethodType_value (method_type config),
              query_params = None,
              body_data = None\<rparr> of
        (sent, Inl err) \<Rightarrow> (sent, Inl err)
      | (sent, Inr response) \<Rightarrow>
          if status response = 200 \<and> truthy (data response)
          then (sent, Inr (data response))
          else (sent, Inr (JObj [])))"

text \<open>An optional argument that the caller leaves out is \<^verbatim>\<open>undefined\<close>.\<close>

fun optional :: "jsval option \<Rightarrow> jsval" where
  "optional None = Undefined"
| "optional (Some v) = v"

definition get ::
  "ApiService \<Rightarrow> Storage \<Rightarrow> adapter \<Rightarrow> string \<Rightarrow> AxiosRequest \<times> (AxiosError + jsval)" where
  "get this localStorage net uuid =
     sendRequest this localStorage net \<lparr>path = Some uuid, method_type = GET, params = None\<rparr>"

definition list_objects ::
  "ApiService \<Rightarrow> Storage \<Rightarrow> adapter \<Rightarrow> jsval option \<Rightarrow> jsval option \<Rightarrow> jsval option
     \<Rightarrow> AxiosRequest \<times> (AxiosError + jsval)" where
  "list_objects this localStorage net filter_arg navigation sorting =
     sendRequest this localStorage net
       \<lparr>path = None, method_type = GET,
        params = Some (JObj [(''filter'', optional filter_arg),
                             (''navigation'', optional navigation),
                             (''sorting'', optional sorting)])\<rparr>"

definition create ::
  "ApiService \<Rightarrow> Storage \<Rightarrow> adapter \<Rightarrow> jsval \<Rightarrow> AxiosRequest \<times> (AxiosError + jsval)" where
  "create this localStorage net d =
     sendRequest this localStorage net \<lparr>path = None, method_type = PUT, params = Some d\<rparr>"

definition update ::
  "ApiService \<Rightarrow> Storage \<Rightarrow> adapter \<Rightarrow> string \<Rightarrow> jsval \<Rightarrow> AxiosRequest \<times> (AxiosError + jsval)" where
  "update this localStorage net uuid d =
     sendRequest this localStorage net \<lparr>path = Some uuid, method_type = PATCH, params = Some d\<rparr>"

definition delete ::
  "ApiService \<Rightarrow> Storage \<Rightarrow> adapter \<Rightarrow> string \<Rightarrow> AxiosRequest \<times> (AxiosError + jsval)" where
  "delete this localStorage net uuid =
     sendRequest this localStorage net \<lparr>path = Some uuid, method_type = DELETE, params = None\<rparr>"

definition call ::
  "ApiService \<Rightarrow> Storage \<Rightarrow> adapter \<Rightarrow> MethodType \<Rightarrow> string option \<Rightarrow> jsval option
     \<Rightarrow> AxiosRequest \<times> (AxiosError + jsval)" where
  "call this localStorage net m p d =
     sendRequest this localStorage net \<lparr>path = p, method_type = m, params = d\<rparr>"

text \<open>The six public operations with their arguments, to speak of any one of them.\<close>

datatype operation =
    Get string
  | List "jsval option" "jsval option" "jsval option"
  | Create jsval
  | Update string jsval
  | Delete string
  | Call MethodType "string option" "jsval option"

fun invoke ::
  "ApiService \<Rightarrow> Storage \<Rightarrow> adapter \<Rightarrow> operation \<Rightarrow> AxiosRequest \<times> (AxiosError + jsval)" where
  "invoke this ls net (Get uuid) = get this ls net uuid"
| "invoke this ls net (List f n s) = list_objects this ls net f n s"
| "invoke this ls net (Create d) = create this ls net d"
| "invoke this ls net (Update uuid d) = update this ls net uuid d"
| "invoke this ls net (Delete uuid) = delete this ls net uuid"
| "invoke this ls net (Call m p d) = call this ls net m p d"

section \<open>Shared facts\<close>

lemma sendRequest_sent:
  "fst (sendRequest this ls net config) =
     setupInterceptors ls
       (mergeConfig (client this)
          \<lparr>url = or_string (path config) [],
           http_method = MethodType_value (method_type config),
           query_params = None,
           body_data = None\<rparr>)"
  by (simp add: sendRequest_def client_request_def Let_def split: sum.splits)

lemma sendRequest_result:
  "snd (sendRequest this ls net config) =
     (case net (fst (sendRequest this ls net config)) of
        Inl err \<Rightarrow> Inl err
      | Inr response \<Rightarrow>
          (case settle response of
             Inl err \<Rightarrow> Inl err
           | Inr r \<Rightarrow>
               if status r = 200 \<and> truthy (data r) then Inr (data r) else Inr (JObj [])))"
  by (auto simp add: sendRequest_def client_request_def Let_def split: sum.splits)

lemma settle_cases:
  "settle response =
     (if status response = 0 \<or> (200 \<le> status response \<and> status response < 300)
      then Inr response else Inl (RequestFailed response))"
  by (simp add: settle_def validateStatus_def)

section \<open>The base address\<close>

text \<open>
  C1. The claim: the base address is protocol, host and the descriptor's entity. For the
  descriptor \<^verbatim>\<open>{entity: 'users'}\<close> the code computes an address that ends in the string
  conversion of the descriptor object, not in \<^verbatim>\<open>users\<close>; the defaults for protocol
  and host are used.
\<close>

theorem getAddress_entity_only:
  "getAddress \<lparr>address = None, entity = ''users'', protocol = None, timeout = None\<rparr>
     = ''https://http://localhost:8000/[object Object]/''
   \<and> baseURL (client (constructor \<lparr>address = None, entity = ''users'', protocol = None, timeout = None\<rparr>))
     \<noteq> BASE_PROTOCOL @ ''://'' @ BASE_URL @ ''/'' @ ''users'' @ ''/''"
  by (simp add: getAddress_def constructor_def toString_object_def BASE_URL_def BASE_PROTOCOL_def)

section \<open>What the operations send\<close>

lemma setupInterceptors_fields:
  "req_baseURL (setupInterceptors ls c) = req_baseURL c"
  "req_url (setupInterceptors ls c) = req_url c"
  "req_method (setupInterceptors ls c) = req_method c"
  "req_timeout (setupInterceptors ls c) = req_timeout c"
  "req_params (setupInterceptors ls c) = req_params c"
  "req_data (setupInterceptors ls c) = req_data c"
  by (simp_all add: setupInterceptors_def split: option.splits)

lemma sendRequest_sent_fields:
  "req_url (fst (sendRequest this ls net config)) = or_string (path config) []"
  "req_method (fst (sendRequest this ls net config)) = MethodType_value (method_type config)"
  "req_params (fst (sendRequest this ls net config)) = None"
  "req_data (fst (sendRequest this ls net config)) = None"
  by (simp_all add: sendRequest_sent setupInterceptors_fields mergeConfig_def)

lemma or_string_empty: "or_string (Some s) [] = s"
  by (cases s) simp_all

text \<open>
  C2. The claim: \<^verbatim>\<open>list(filter, nav, sort)\<close> issues a GET whose parameters are the
  bundle of the three arguments. The code issues a GET to the empty path, but the bundle
  is left in the request descriptor: the outbound request has neither parameters nor a
  body.
\<close>

theorem list_objects_drops_bundle:
  "req_method (fst (list_objects this ls net (Some f) (Some n) (Some s))) = ''GET''
   \<and> req_url (fst (list_objects this ls net (Some f) (Some n) (Some s))) = []
   \<and> req_params (fst (list_objects this ls net (Some f) (Some n) (Some s))) = None
   \<and> req_data (fst (list_objects this ls net (Some f) (Some n) (Some s))) = None
   \<and> req_params (fst (list_objects this ls net (Some f) (Some n) (Some s)))
       \<noteq> Some (JObj [(''filter'', f), (''navigation'', n), (''sorting'', s)])"
  by (simp add: list_objects_def sendRequest_sent_fields)

text \<open>
  C3. The claim: \<^verbatim>\<open>update(uuid, data)\<close> issues a request whose method is the string
  PATCH, to the path \<^verbatim>\<open>uuid\<close>, with \<^verbatim>\<open>data\<close> as parameters. The path is as
  claimed; the method string sent is the enum member's value, which is not PATCH, and
  \<^verbatim>\<open>data\<close> is not sent.
\<close>

theorem update_sends_wrong_method:
  "req_url (fst (update this ls net uuid d)) = uuid
   \<and> req_method (fst (update this ls net uuid d)) = ''PARCH''
   \<and> req_method (fst (update this ls net uuid d)) \<noteq> ''PATCH''
   \<and> req_params (fst (update this ls net uuid d)) = None
   \<and> req_data (fst (update this ls net uuid d)) = None"
  by (simp add: update_def sendRequest_sent_fields or_string_empty del: or_string.simps)

text \<open>
  C6. The claim: \<^verbatim>\<open>create(data)\<close> issues a PUT with \<^verbatim>\<open>data\<close> as parameters and
  returns a string. The method is PUT, but \<^verbatim>\<open>data\<close> is not sent, whatever it is; and
  the result is the response body as it comes, here an object.
\<close>

theorem create_drops_data:
  "req_method (fst (create this ls net d)) = ''PUT''
   \<and> req_params (fst (create this ls net d)) = None
   \<and> req_data (fst (create this ls net d)) = None
   \<and> req_params (fst (create this ls net d)) \<noteq> Some d
   \<and> snd (create this ls (\<lambda>r. Inr \<lparr>status = 200, data = JObj [(''uuid'', JStr ''7'')]\<rparr>) d)
       = Inr (JObj [(''uuid'', JStr ''7'')])"
  by (simp add: create_def sendRequest_sent_fields sendRequest_result settle_cases)

text \<open>
  C8. Two invocations of an operation that differ only in the params or data argument
  send the same request: the request is built from the path (the empty string when
  absent) and the method alone, and carries no parameters and no body, for every
  operation.
\<close>

theorem params_never_transmitted:
  "fst (sendRequest this ls net (config\<lparr>params := p\<rparr>))
     = fst (sendRequest this ls net (config\<lparr>params := p'\<rparr>))
   \<and> fst (list_objects this ls net f n s) = fst (list_objects this ls net f' n' s')
   \<and> fst (create this ls net d) = fst (create this ls net d')
   \<and> fst (update this ls net uuid d) = fst (update this ls net uuid d')
   \<and> fst (call this ls net m pa x) = fst (call this ls net m pa x')
   \<and> req_url (fst (sendRequest this ls net config)) = or_string (path config) []
   \<and> req_method (fst (sendRequest this ls net config)) = MethodType_value (method_type config)
   \<and> req_params (fst (invoke this ls net opn)) = None
   \<and> req_data (fst (invoke this ls net opn)) = None"
proof -
  have sent: "req_params (fst (invoke this ls net opn)) = None
               \<and> req_data (fst (invoke this ls net opn)) = None"
    by (cases opn)
       (simp_all add: get_def list_objects_def create_def update_def delete_def call_def
          sendRequest_sent_fields)
  have same: "fst (sendRequest this ls net (config\<lparr>params := p\<rparr>))
               = fst (sendRequest this ls net (config\<lparr>params := p'\<rparr>))"
    by (simp add: sendRequest_sent)
  have ops: "fst (list_objects this ls net f n s) = fst (list_objects this ls net f' n' s')
              \<and> fst (create this ls net d) = fst (create this ls net d')
              \<and> fst (update this ls net uuid d) = fst (update this ls net uuid d')
              \<and> fst (call this ls net m pa x) = fst (call this ls net m pa x')"
    by (simp add: list_objects_def create_def update_def call_def sendRequest_sent)
  have built: "req_url (fst (sendRequest this ls net config)) = or_string (path config) []
                \<and> req_method (fst (sendRequest this ls net config))
                    = MethodType_value (method_type config)"
    by (simp add: sendRequest_sent_fields)
  from same ops built sent show ?thesis
    by blast
qed

section \<open>Falsy configuration values\<close>


section \<open>The result contract\<close>

lemma invoke_result:
  "snd (invoke this ls net opn) =
     (case net (fst (invoke this ls net opn)) of
        Inl err \<Rightarrow> Inl err
      | Inr response \<Rightarrow>
          (case settle response of
             Inl err \<Rightarrow> Inl err
           | Inr r \<Rightarrow>
               if status r = 200 \<and> truthy (data r) then Inr (data r) else Inr (JObj [])))"
  by (cases opn)
     (simp_all add: get_def list_objects_def create_def update_def delete_def call_def
        sendRequest_result)

lemma invoke_answered:
  assumes "net (fst (invoke this ls net opn)) = Inr response"
  shows "snd (invoke this ls net opn) =
           (if status response = 0 \<or> (200 \<le> status response \<and> status response < 300)
            then (if status response = 200 \<and> truthy (data response)
                  then Inr (data response) else Inr (JObj []))
            else Inl (RequestFailed response))"
  using assms by (simp add: invoke_result [of "this" ls net opn] settle_cases)

lemma empty_body_falsy: "empty_body d \<Longrightarrow> \<not> truthy d"
  by (cases d) simp_all




section \<open>The bearer token\<close>

lemma sendRequest_sent_headers:
  "req_headers (fst (sendRequest this ls net config)) =
     (case ls TOKEN_KEY_NAME of
        None \<Rightarrow> default_headers (client this)
      | Some token \<Rightarrow>
          if truthy_string token
          then (default_headers (client this))(''Authorization'' \<mapsto> ''Bearer '' @ token)
          else default_headers (client this))"
  by (simp add: sendRequest_sent setupInterceptors_def mergeConfig_def split: option.splits)

lemma invoke_sent_headers:
  "req_headers (fst (invoke this ls net opn)) =
     (case ls TOKEN_KEY_NAME of
        None \<Rightarrow> default_headers (client this)
      | Some token \<Rightarrow>
          if truthy_string token
          then (default_headers (client this))(''Authorization'' \<mapsto> ''Bearer '' @ token)
          else default_headers (client this))"
  by (cases opn)
     (simp_all only: invoke.simps get_def list_objects_def create_def update_def delete_def
        call_def sendRequest_sent_headers)

lemma truthy_string_iff: "truthy_string s \<longleftrightarrow> s \<noteq> []"
  by (cases s) simp_all

lemma constructor_headers:
  "default_headers (client (constructor endpoint)) ''Authorization'' = None"
  by (simp add: constructor_def)

text \<open>
  C5, as stated, fails: with the empty string stored under the key, a token string is
  present in storage, and the request carries no Authorization header.
\<close>

theorem empty_token_counterexample:
  "[TOKEN_KEY_NAME \<mapsto> []] TOKEN_KEY_NAME = Some []
   \<and> req_headers
        (fst (get (constructor \<lparr>address = None, entity = ''users'', protocol = None, timeout = None\<rparr>)
                [TOKEN_KEY_NAME \<mapsto> []] (\<lambda>r. Inr \<lparr>status = 200, data = Null\<rparr>) ''123''))
        ''Authorization'' = None
   \<and> req_headers
        (fst (get (constructor \<lparr>address = None, entity = ''users'', protocol = None, timeout = None\<rparr>)
                [TOKEN_KEY_NAME \<mapsto> []] (\<lambda>r. Inr \<lparr>status = 200, data = Null\<rparr>) ''123''))
        ''Authorization'' \<noteq> Some (''Bearer '' @ [])"
  by (simp add: get_def sendRequest_sent_headers constructor_def)

text \<open>
  C5, amended. For every operation of a client built by the constructor: if a non-empty
  token string is stored under the key at the time of the request, the outbound request
  carries Authorization: Bearer token; if no token is stored, or the stored token is the
  empty string, the request carries no Authorization header, and it is still handed to
  the transport, whose settled outcome decides the result.
\<close>

theorem authorization_header:
  "(ls TOKEN_KEY_NAME = Some token \<and> token \<noteq> []
      \<longrightarrow> req_headers (fst (invoke (constructor endpoint) ls net opn)) ''Authorization''
            = Some (''Bearer '' @ token))
   \<and> (ls' TOKEN_KEY_NAME = None \<or> ls' TOKEN_KEY_NAME = Some []
      \<longrightarrow> req_headers (fst (invoke (constructor endpoint) ls' net opn)) ''Authorization'' = None
          \<and> snd (invoke (constructor endpoint) ls' net opn) =
              (case net (fst (invoke (constructor endpoint) ls' net opn)) of
                 Inl err \<Rightarrow> Inl err
               | Inr response \<Rightarrow>
                   (case settle response of
                      Inl err \<Rightarrow> Inl err
                    | Inr r \<Rightarrow>
                        if status r = 200 \<and> truthy (data r)
                        then Inr (data r) else Inr (JObj []))))"
proof -
  have present: "req_headers (fst (invoke (constructor endpoint) ls net opn)) ''Authorization''
                   = Some (''Bearer '' @ token)"
    if "ls TOKEN_KEY_NAME = Some token" and "token \<noteq> []"
    using that by (simp add: invoke_sent_headers truthy_string_iff)
  have absent: "req_headers (fst (invoke (constructor endpoint) ls' net opn)) ''Authorization''
                  = None"
    if "ls' TOKEN_KEY_NAME = None \<or> ls' TOKEN_KEY_NAME = Some []"
    using that by (auto simp add: invoke_sent_headers constructor_headers)
  from present absent invoke_result [of "constructor endpoint" ls' net opn]
  show ?thesis
    by blast
qed

theorem authorization_header_witness:
  "req_headers
     (fst (invoke (constructor \<lparr>address = None, entity = ''users'', protocol = None, timeout = None\<rparr>)
             [TOKEN_KEY_NAME \<mapsto> ''abc''] (\<lambda>r. Inr \<lparr>status = 200, data = Null\<rparr>) (Get ''123'')))
     ''Authorization'' = Some ''Bearer abc''
   \<and> req_headers
     (fst (invoke (constructor \<lparr>address = None, entity = ''users'', protocol = None, timeout = None\<rparr>)
             Map.empty (\<lambda>r. Inr \<lparr>status = 200, data = Null\<rparr>) (Get ''123'')))
     ''Authorization'' = None
   \<and> snd (invoke (constructor \<lparr>address = None, entity = ''users'', protocol = None, timeout = None\<rparr>)
             Map.empty (\<lambda>r. Inr \<lparr>status = 200, data = Null\<rparr>) (Get ''123''))
     = Inr (JObj [])"
  using authorization_header
    [of "[TOKEN_KEY_NAME \<mapsto> ''abc'']" "''abc''"
        "\<lparr>address = None, entity = ''users'', protocol = None, timeout = None\<rparr>"
        "\<lambda>r. Inr \<lparr>status = 200, data = Null\<rparr>" "Get ''123''" Map.empty]
  by (simp add: settle_cases)

section \<open>Explicit configuration values\<close>

lemma invoke_sent_defaults:
  "req_baseURL (fst (invoke this ls net opn)) = baseURL (client this)"
  "req_timeout (fst (invoke this ls net opn)) = default_timeout (client this)"
  by (cases opn;
      simp add: get_def list_objects_def create_def update_def delete_def call_def
        sendRequest_sent setupInterceptors_fields mergeConfig_def)+

text \<open>
  C7, as stated, fails: in the descriptor below the address and the timeout are
  supplied explicitly, as the empty string and 0, and the client uses the default host
  and the default timeout.
\<close>

theorem explicit_falsy_counterexample:
  "baseURL (client (constructor
      \<lparr>address = Some [], entity = ''users'', protocol = Some ''http'', timeout = Some (Num 0)\<rparr>))
     = ''http://http://localhost:8000/[object Object]/''
   \<and> \<not> prefix (''http'' @ ''://'' @ [] @ ''/'')
        (baseURL (client (constructor
           \<lparr>address = Some [], entity = ''users'', protocol = Some ''http'', timeout = Some (Num 0)\<rparr>)))
   \<and> default_timeout (client (constructor
        \<lparr>address = Some [], entity = ''users'', protocol = Some ''http'', timeout = Some (Num 0)\<rparr>))
     = Num 15000
   \<and> default_timeout (client (constructor
        \<lparr>address = Some [], entity = ''users'', protocol = Some ''http'', timeout = Some (Num 0)\<rparr>))
     \<noteq> Num 0"
  by (simp add: constructor_def getAddress_def toString_object_def BASE_URL_def BASE_TIMEOUT_def)

text \<open>
  C7, amended. For every endpoint descriptor in which address and protocol are supplied
  as non-empty strings and timeout as a number other than 0 and NaN, the base address
  bound to the transport starts with protocol, \<^verbatim>\<open>://\<close>, address and \<^verbatim>\<open>/\<close>, the
  transport's timeout is the supplied one, and every request of every operation carries
  that base address and that timeout.
\<close>

theorem explicit_values_override:
  assumes "address endpoint = Some a" and "a \<noteq> []"
    and "protocol endpoint = Some p" and "p \<noteq> []"
    and "timeout endpoint = Some t" and "t \<noteq> Num 0" and "t \<noteq> NaN"
  shows "prefix (p @ ''://'' @ a @ ''/'') (baseURL (client (constructor endpoint)))
         \<and> default_timeout (client (constructor endpoint)) = t
         \<and> req_baseURL (fst (invoke (constructor endpoint) ls net opn))
             = baseURL (client (constructor endpoint))
         \<and> req_timeout (fst (invoke (constructor endpoint) ls net opn)) = t"
proof -
  have "truthy_number t"
    using assms(6,7) by (cases t) simp_all
  then have tmo: "default_timeout (client (constructor endpoint)) = t"
    using assms(5) by (simp add: constructor_def)
  have "getAddress endpoint = (p @ ''://'' @ a @ ''/'') @ toString_object endpoint @ ''/''"
    using assms(1-4) by (simp add: getAddress_def truthy_string_iff)
  then have "prefix (p @ ''://'' @ a @ ''/'') (getAddress endpoint)"
    by (simp only: prefixI)
  then have base: "prefix (p @ ''://'' @ a @ ''/'') (baseURL (client (constructor endpoint)))"
    by (simp add: constructor_def)
  from base tmo show ?thesis
    by (simp add: invoke_sent_defaults)
qed

theorem explicit_values_override_witness:
  "prefix ''http://api.example.org/''
     (baseURL (client (constructor
        \<lparr>address = Some ''api.example.org'', entity = ''users'', protocol = Some ''http'',
         timeout = Some (Num 500)\<rparr>)))
   \<and> default_timeout (client (constructor
        \<lparr>address = Some ''api.example.org'', entity = ''users'', protocol = Some ''http'',
         timeout = Some (Num 500)\<rparr>)) = Num 500
   \<and> req_timeout (fst (invoke (constructor
        \<lparr>address = Some ''api.example.org'', entity = ''users'', protocol = Some ''http'',
         timeout = Some (Num 500)\<rparr>) Map.empty (\<lambda>r. Inr \<lparr>status = 200, data = Null\<rparr>)
        (Get ''123''))) = Num 500"
  using explicit_values_override
    [of "\<lparr>address = Some ''api.example.org'', entity = ''users'', protocol = Some ''http'',
          timeout = Some (Num 500)\<rparr>" "''api.example.org''" "''http''" "Num 500"
        Map.empty "\<lambda>r. Inr \<lparr>status = 200, data = Null\<rparr>" "Get ''123''"]
  by simp

section \<open>The declared results of create and delete\<close>

text \<open>
  C10, as stated, fails: a response with status 500 is a response with a status other
  than 200, and create and delete do not resolve to the empty object for it; they fail
  with the rejection of the transport.
\<close>

theorem create_delete_rejected_counterexample:
  "snd (create (constructor \<lparr>address = None, entity = ''users'', protocol = None, timeout = None\<rparr>)
          Map.empty (\<lambda>q. Inr \<lparr>status = 500, data = JStr ''Server Error''\<rparr>)
          (JObj [(''name'', JStr ''Ann'')]))
     = Inl (RequestFailed \<lparr>status = 500, data = JStr ''Server Error''\<rparr>)
   \<and> snd (create (constructor \<lparr>address = None, entity = ''users'', protocol = None, timeout = None\<rparr>)
          Map.empty (\<lambda>q. Inr \<lparr>status = 500, data = JStr ''Server Error''\<rparr>)
          (JObj [(''name'', JStr ''Ann'')]))
     \<noteq> Inr (JObj [])
   \<and> snd (delete (constructor \<lparr>address = None, entity = ''users'', protocol = None, timeout = None\<rparr>)
          Map.empty (\<lambda>q. Inr \<lparr>status = 500, data = JStr ''Server Error''\<rparr>) ''123'')
     = Inl (RequestFailed \<lparr>status = 500, data = JStr ''Server Error''\<rparr>)
   \<and> snd (delete (constructor \<lparr>address = None, entity = ''users'', protocol = None, timeout = None\<rparr>)
          Map.empty (\<lambda>q. Inr \<lparr>status = 500, data = JStr ''Server Error''\<rparr>) ''123'')
     \<noteq> Inr (JObj [])"
  by (simp add: create_def delete_def sendRequest_result settle_cases)

text \<open>
  C10, amended. For every response with a status from 200 to 299 other than 200, or
  with an empty body and a status from 200 to 299, create resolves to the empty object,
  which is not a string, and delete resolves to the empty object, which is not a
  boolean. For every response with a status that is not 0 and not from 200 to 299,
  create and delete do not resolve: they fail with the rejection of the transport.
  create resolves to a string, and delete to a boolean, only when the response has
  status 200 and a body that is not empty, that string or boolean itself; and delete
  never resolves to false.
\<close>

theorem create_delete_fallback:
  "(net (fst (create this ls net d)) = Inr r
      \<and> 200 \<le> status r \<and> status r < 300 \<and> (status r \<noteq> 200 \<or> empty_body (data r))
      \<longrightarrow> snd (create this ls net d) = Inr (JObj [])
          \<and> snd (create this ls net d) \<noteq> Inr (JStr s))
   \<and> (net (fst (delete this ls net uuid)) = Inr r'
      \<and> 200 \<le> status r' \<and> status r' < 300 \<and> (status r' \<noteq> 200 \<or> empty_body (data r'))
      \<longrightarrow> snd (delete this ls net uuid) = Inr (JObj [])
          \<and> snd (delete this ls net uuid) \<noteq> Inr (JBool b))
   \<and> (net (fst (create this ls net d)) = Inr r
      \<and> status r \<noteq> 0 \<and> (status r < 200 \<or> 300 \<le> status r)
      \<longrightarrow> snd (create this ls net d) = Inl (RequestFailed r))
   \<and> (net (fst (delete this ls net uuid)) = Inr r'
      \<and> status r' \<noteq> 0 \<and> (status r' < 200 \<or> 300 \<le> status r')
      \<longrightarrow> snd (delete this ls net uuid) = Inl (RequestFailed r'))
   \<and> (snd (create this ls net1 d) = Inr (JStr s)
      \<longrightarrow> (\<exists>r. net1 (fst (create this ls net1 d)) = Inr r \<and> status r = 200
                \<and> \<not> empty_body (data r) \<and> data r = JStr s))
   \<and> (snd (delete this ls net2 uuid) = Inr (JBool b)
      \<longrightarrow> b \<and> (\<exists>r. net2 (fst (delete this ls net2 uuid)) = Inr r \<and> status r = 200
                \<and> \<not> empty_body (data r) \<and> data r = JBool b))
   \<and> snd (delete this ls net uuid) \<noteq> Inr (JBool False)"
proof -
  have fallback: "snd (invoke this ls net opn) = Inr (JObj [])"
    if "net (fst (invoke this ls net opn)) = Inr x" and "200 \<le> status x" and "status x < 300"
      and "status x \<noteq> 200 \<or> empty_body (data x)"
    for opn x
    using that(2-4) empty_body_falsy [of "data x"]
    by (auto simp add: invoke_answered [of net "this" ls opn x, OF that(1)])
  have rejected: "snd (invoke this ls net opn) = Inl (RequestFailed x)"
    if "net (fst (invoke this ls net opn)) = Inr x" and "status x \<noteq> 0"
      and "status x < 200 \<or> 300 \<le> status x"
    for opn x
    using that(2,3) by (auto simp add: invoke_answered [of net "this" ls opn x, OF that(1)])
  have shape: "\<exists>x. nt (fst (invoke this ls nt opn)) = Inr x \<and> status x = 200
                    \<and> truthy (data x) \<and> \<not> empty_body (data x) \<and> data x = v"
    if "snd (invoke this ls nt opn) = Inr v" and "v \<noteq> JObj []"
    for opn nt v
  proof (cases "nt (fst (invoke this ls nt opn))")
    case (Inl err)
    with that(1) show ?thesis
      by (simp add: invoke_result [of "this" ls nt opn])
  next
    case (Inr x)
    from that invoke_answered [of nt "this" ls opn x, OF Inr]
    have "status x = 200 \<and> truthy (data x) \<and> data x = v"
      by (auto split: if_splits)
    with Inr empty_body_falsy [of "data x"] show ?thesis
      by auto
  qed
  have c1: "snd (create this ls net d) = Inr (JObj []) \<and> snd (create this ls net d) \<noteq> Inr (JStr s)"
    if "net (fst (create this ls net d)) = Inr r" and "200 \<le> status r" and "status r < 300"
      and "status r \<noteq> 200 \<or> empty_body (data r)"
    using fallback [of "Create d" r] that by simp
  have c2: "snd (delete this ls net uuid) = Inr (JObj [])
              \<and> snd (delete this ls net uuid) \<noteq> Inr (JBool b)"
    if "net (fst (delete this ls net uuid)) = Inr r'" and "200 \<le> status r'"
      and "status r' < 300" and "status r' \<noteq> 200 \<or> empty_body (data r')"
    using fallback [of "Delete uuid" r'] that by simp
  have r1: "snd (create this ls net d) = Inl (RequestFailed r)"
    if "net (fst (create this ls net d)) = Inr r" and "status r \<noteq> 0"
      and "status r < 200 \<or> 300 \<le> status r"
    using rejected [of "Create d" r] that by simp
  have r2: "snd (delete this ls net uuid) = Inl (RequestFailed r')"
    if "net (fst (delete this ls net uuid)) = Inr r'" and "status r' \<noteq> 0"
      and "status r' < 200 \<or> 300 \<le> status r'"
    using rejected [of "Delete uuid" r'] that by simp
  have c3: "\<exists>r. net1 (fst (create this ls net1 d)) = Inr r \<and> status r = 200
                \<and> \<not> empty_body (data r) \<and> data r = JStr s"
    if "snd (create this ls net1 d) = Inr (JStr s)"
    using shape [of net1 "Create d" "JStr s"] that by auto
  have c4: "\<exists>r. net2 (fst (delete this ls net2 uuid)) = Inr r \<and> status r = 200
                \<and> truthy (data r) \<and> \<not> empty_body (data r) \<and> data r = JBool b"
    if "snd (delete this ls net2 uuid) = Inr (JBool b)"
    using shape [of net2 "Delete uuid" "JBool b"] that by auto
  have c4b: "b" if "snd (delete this ls net2 uuid) = Inr (JBool b)"
    using c4 [OF that] by auto
  have c5: "snd (delete this ls net uuid) \<noteq> Inr (JBool False)"
    using shape [of net "Delete uuid" "JBool False"] by auto
  from c1 c2 r1 r2 c3 c4 c4b c5 show ?thesis
    by blast
qed

theorem create_delete_fallback_witness:
  "snd (create (constructor \<lparr>address = None, entity = ''users'', protocol = None, timeout = None\<rparr>)
          Map.empty (\<lambda>q. Inr \<lparr>status = 204, data = JStr []\<rparr>) (JObj [(''name'', JStr ''Ann'')]))
     = Inr (JObj [])
   \<and> snd (delete (constructor \<lparr>address = None, entity = ''users'', protocol = None, timeout = None\<rparr>)
          Map.empty (\<lambda>q. Inr \<lparr>status = 204, data = JStr []\<rparr>) ''123'')
     = Inr (JObj [])
   \<and> snd (create (constructor \<lparr>address = None, entity = ''users'', protocol = None, timeout = None\<rparr>)
          Map.empty (\<lambda>q. Inr \<lparr>status = 503, data = JStr ''busy''\<rparr>) (JObj [(''name'', JStr ''Ann'')]))
     = Inl (RequestFailed \<lparr>status = 503, data = JStr ''busy''\<rparr>)
   \<and> snd (delete (constructor \<lparr>address = None, entity = ''users'', protocol = None, timeout = None\<rparr>)
          Map.empty (\<lambda>q. Inr \<lparr>status = 503, data = JStr ''busy''\<rparr>) ''123'')
     = Inl (RequestFailed \<lparr>status = 503, data = JStr ''busy''\<rparr>)
   \<and> snd (create (constructor \<lparr>address = None, entity = ''users'', protocol = None, timeout = None\<rparr>)
          Map.empty (\<lambda>q. Inr \<lparr>status = 200, data = JStr ''7''\<rparr>) (JObj [(''name'', JStr ''Ann'')]))
     = Inr (JStr ''7'')
   \<and> snd (delete (constructor \<lparr>address = None, entity = ''users'', protocol = None, timeout = None\<rparr>)
          Map.empty (\<lambda>q. Inr \<lparr>status = 200, data = JBool True\<rparr>) ''123'')
     = Inr (JBool True)"
  using
    create_delete_fallback
      [of "\<lambda>q. Inr \<lparr>status = 204, data = JStr []\<rparr>"
          "constructor \<lparr>address = None, entity = ''users'', protocol = None, timeout = None\<rparr>"
          Map.empty "JObj [(''name'', JStr ''Ann'')]" "\<lparr>status = 204, data = JStr []\<rparr>"
          "''7''" "''123''" "\<lparr>status = 204, data = JStr []\<rparr>" True
          "\<lambda>q. Inr \<lparr>status = 200, data = JStr ''7''\<rparr>"
          "\<lambda>q. Inr \<lparr>status = 200, data = JBool True\<rparr>"]
    create_delete_fallback
      [of "\<lambda>q. Inr \<lparr>status = 503, data = JStr ''busy''\<rparr>"
          "constructor \<lparr>address = None, entity = ''users'', protocol = None, timeout = None\<rparr>"
          Map.empty "JObj [(''name'', JStr ''Ann'')]" "\<lparr>status = 503, data = JStr ''busy''\<rparr>"
          "''7''" "''123''" "\<lparr>status = 503, data = JStr ''busy''\<rparr>" True
          "\<lambda>q. Inr \<lparr>status = 200, data = JStr ''7''\<rparr>"
          "\<lambda>q. Inr \<lparr>status = 200, data = JBool True\<rparr>"]
  by (simp add: create_def delete_def sendRequest_result settle_cases)

end
